theory Spec2Isabelle
  imports Complex_Main "HOL-Library.Char_ord" "HOL-Library.List_Lexorder"
begin

section \<open>Texts and characters\<close>

text \<open>
  A Python \<open>str\<close> is a sequence of Unicode code points. The model covers the texts
  whose code points are below 256: one \<^typ>\<open>char\<close> per code point, \<open>of_char\<close>
  giving its number. The three character classes below are those of CPython on that
  range: \<open>str.isspace\<close> (what \<open>str.strip()\<close> removes), \<open>str.isalnum\<close>, and
  the class \<open>\w\<close> of the \<open>re\<close> module for \<open>str\<close> patterns, which is
  ``alphanumeric or underscore''.
\<close>

definition py_isspace :: "char \<Rightarrow> bool" where
  "py_isspace c =
     (let n = (of_char c :: nat)
      in (9 \<le> n \<and> n \<le> 13) \<or> (28 \<le> n \<and> n \<le> 32) \<or> n = 133 \<or> n = 160)"

definition py_isalnum :: "char \<Rightarrow> bool" where
  "py_isalnum c =
     (let n = (of_char c :: nat)
      in (48 \<le> n \<and> n \<le> 57) \<or> (65 \<le> n \<and> n \<le> 90) \<or> (97 \<le> n \<and> n \<le> 122)
         \<or> n = 170 \<or> n = 178 \<or> n = 179 \<or> n = 181 \<or> n = 185 \<or> n = 186
         \<or> (188 \<le> n \<and> n \<le> 190) \<or> (192 \<le> n \<and> n \<le> 214)
         \<or> (216 \<le> n \<and> n \<le> 246) \<or> (248 \<le> n \<and> n \<le> 255))"

definition re_word :: "char \<Rightarrow> bool" where
  "re_word c = (py_isalnum c \<or> c = CHR ''_'')"

definition py_lower_char :: "char \<Rightarrow> char" where
  "py_lower_char c =
     (let n = (of_char c :: nat)
      in if (65 \<le> n \<and> n \<le> 90) \<or> (192 \<le> n \<and> n \<le> 214) \<or> (216 \<le> n \<and> n \<le> 222)
         then char_of (n + 32) else c)"

definition py_lower :: "string \<Rightarrow> string" where
  "py_lower s = map py_lower_char s"

definition strip :: "string \<Rightarrow> string" where
  "strip s = rev (dropWhile py_isspace (rev (dropWhile py_isspace s)))"

section \<open>The token pattern of the vectorizer\<close>

text \<open>
  \<open>TfidfVectorizer()\<close> is built with its defaults: \<open>lowercase=True\<close>,
  \<open>token_pattern=r"(?u)\b\w\w+\b"\<close>, no stop words, word unigrams. Its analyzer
  lowercases the document and returns \<open>token_pattern.findall(doc)\<close>. \<open>findall\<close>
  scans from the left; \<open>scan_tokens cur s\<close> is that scan, \<open>cur\<close> being the run of
  \<open>\w\<close> characters read since the last boundary. A run is emitted when it ends, if it
  has two characters or more.
\<close>

definition emit :: "string \<Rightarrow> string list" where
  "emit cur = (if 2 \<le> length cur then [cur] else [])"

fun scan_tokens :: "string \<Rightarrow> string \<Rightarrow> string list" where
  "scan_tokens cur [] = emit cur"
| "scan_tokens cur (c # cs) =
     (if re_word c then scan_tokens (cur @ [c]) cs else emit cur @ scan_tokens [] cs)"

definition findall_token_pattern :: "string \<Rightarrow> string list" where
  "findall_token_pattern doc = scan_tokens [] doc"

definition build_analyzer :: "string \<Rightarrow> string list" where
  "build_analyzer doc = findall_token_pattern (py_lower doc)"

section \<open>Errors\<close>

text \<open>
  The exceptions of the Python code are values: a function that may raise returns
  \<open>py_error + 'a\<close>, \<open>Inl\<close> being the exception.
\<close>

datatype py_error = ValueError string | IndexError

section \<open>The TF-IDF vectorizer and the cosine of two rows\<close>

text \<open>
  The library calls of \<open>cosine_similarity_check\<close>, with the defaults the code uses.
  The definitions of this section give the values of these calls in exact arithmetic on
  \<^typ>\<open>real\<close>. The library computes in float64, so what it returns is these values up
  to rounding: for the texts \<open>ab cd\<close> and \<open>ab cd\<close> the exact cosine is 1 and the
  float64 result is 1.0000000000000002. Where a statement depends on the rounded value,
  the result of the library is a parameter.

  \<open>CountVectorizer._count_vocab\<close>: the vocabulary is the set of the tokens of all
  documents, in sorted order; an empty vocabulary raises \<open>ValueError\<close>. Row \<open>d\<close> of
  the count matrix holds, for each term of the vocabulary, the number of its occurrences
  among the tokens of document \<open>d\<close>. With \<open>min_df=1\<close> and \<open>max_df=1.0\<close> no term is
  pruned.
\<close>

definition count_vocab :: "string list \<Rightarrow> py_error + (string list \<times> nat list list)" where
  "count_vocab raw_documents =
     (let analyzed = map build_analyzer raw_documents;
          vocabulary = sort (remdups (concat analyzed))
      in if vocabulary = []
         then Inl (ValueError ''empty vocabulary; perhaps the documents only contain stop words'')
         else Inr (vocabulary, map (\<lambda>toks. map (\<lambda>t. count_list toks t) vocabulary) analyzed))"

text \<open>
  \<open>TfidfTransformer\<close> with \<open>use_idf=True\<close>, \<open>smooth_idf=True\<close>,
  \<open>sublinear_tf=False\<close>, \<open>norm='l2'\<close>. The document frequency of a column is the
  number of rows with a non-zero count in it; \<open>idf = log((n_samples + 1) / (df + 1)) + 1\<close>.
\<close>

definition document_frequency :: "nat \<Rightarrow> nat list list \<Rightarrow> nat list" where
  "document_frequency n_features X =
     map (\<lambda>j. length (filter (\<lambda>row. row ! j \<noteq> 0) X)) [0..<n_features]"

definition idf_vector :: "nat \<Rightarrow> nat list list \<Rightarrow> real list" where
  "idf_vector n_features X =
     map (\<lambda>df. ln ((real (length X) + 1) / (real df + 1)) + 1) (document_frequency n_features X)"

definition dot :: "real list \<Rightarrow> real list \<Rightarrow> real" where
  "dot u v = sum_list (map2 (\<lambda>x y. x * y) u v)"

definition l2_norm :: "real list \<Rightarrow> real" where
  "l2_norm v = sqrt (dot v v)"

text \<open>\<open>sklearn.preprocessing.normalize\<close>: a row of norm zero is left as it is.\<close>

definition normalize_l2 :: "real list \<Rightarrow> real list" where
  "normalize_l2 v = (if l2_norm v = 0 then v else map (\<lambda>x. x / l2_norm v) v)"

definition tfidf_transform :: "nat \<Rightarrow> nat list list \<Rightarrow> real list list" where
  "tfidf_transform n_features X =
     map (\<lambda>row. normalize_l2 (map2 (\<lambda>c w. real c * w) row (idf_vector n_features X))) X"

definition fit_transform :: "string list \<Rightarrow> py_error + real list list" where
  "fit_transform raw_documents =
     (case count_vocab raw_documents of
        Inl e \<Rightarrow> Inl e
      | Inr (vocabulary, X) \<Rightarrow> Inr (tfidf_transform (length vocabulary) X))"

text \<open>
  \<open>sklearn.metrics.pairwise.cosine_similarity(X)\<close>: the rows are normalized again and
  the result is the matrix of their dot products. Nothing is clipped.
\<close>

definition cosine_similarity :: "real list list \<Rightarrow> real list list" where
  "cosine_similarity X =
     (let X_normalized = map normalize_l2 X
      in map (\<lambda>u. map (\<lambda>v. dot u v) X_normalized) X_normalized)"

definition getitem2 :: "real list list \<Rightarrow> nat \<Rightarrow> nat \<Rightarrow> py_error + real" where
  "getitem2 K i j =
     (if i < length K \<and> j < length (K ! i) then Inr (K ! i ! j) else Inl IndexError)"

section \<open>algorithms.py and core.py\<close>

text \<open>The body of the \<open>try\<close> block of \<open>cosine_similarity_check\<close>.\<close>

definition cosine_similarity_try :: "string \<Rightarrow> string \<Rightarrow> py_error + real" where
  "cosine_similarity_try text1 text2 =
     (let text1 = strip text1; text2 = strip text2
      in if text1 = [] \<or> text2 = [] then Inr 0
         else (case fit_transform [text1, text2] of
                 Inl e \<Rightarrow> Inl e
               | Inr vectors \<Rightarrow> getitem2 (cosine_similarity vectors) 0 1))"

text \<open>\<open>except Exception\<close>: every exception of the body becomes the result 0.0.\<close>

definition cosine_similarity_check :: "string \<Rightarrow> string \<Rightarrow> py_error + real" where
  "cosine_similarity_check text1 text2 =
     (case cosine_similarity_try text1 text2 of Inl e \<Rightarrow> Inr 0 | Inr similarity \<Rightarrow> Inr similarity)"

definition run_check :: "string \<Rightarrow> string \<Rightarrow> string \<Rightarrow> py_error + real" where
  "run_check text1 text2 algorithm =
     (if algorithm = ''cosine_similarity'' then cosine_similarity_check text1 text2
      else Inl (ValueError ''Unsupported algorithm''))"

text \<open>The call with the default value of \<open>algorithm\<close>.\<close>

definition run_check_default :: "string \<Rightarrow> string \<Rightarrow> py_error + real" where
  "run_check_default text1 text2 = run_check text1 text2 ''cosine_similarity''"

text \<open>
  Lines 20 to 22 of \<open>cosine_similarity_check\<close> are one computation of the library, in
  float64. In \<open>cosine_similarity_check_with\<close> its outcome, the float64 value it
  returns or the exception it raises, is the parameter \<open>library_result\<close>: the function
  as the code has it, with nothing assumed about the rounding of the library. (A float64
  value is a real number.) \<open>exact_similarity\<close> is the outcome of the same lines in exact
  arithmetic, the one \<open>cosine_similarity_check\<close> above uses.
\<close>

definition exact_similarity :: "string \<Rightarrow> string \<Rightarrow> py_error + real" where
  "exact_similarity text1 text2 =
     (case fit_transform [text1, text2] of
        Inl e \<Rightarrow> Inl e
      | Inr vectors \<Rightarrow> getitem2 (cosine_similarity vectors) 0 1)"

definition cosine_similarity_try_with ::
  "py_error + real \<Rightarrow> string \<Rightarrow> string \<Rightarrow> py_error + real" where
  "cosine_similarity_try_with library_result text1 text2 =
     (let text1 = strip text1; text2 = strip text2
      in if text1 = [] \<or> text2 = [] then Inr 0 else library_result)"

definition cosine_similarity_check_with ::
  "py_error + real \<Rightarrow> string \<Rightarrow> string \<Rightarrow> py_error + real" where
  "cosine_similarity_check_with library_result text1 text2 =
     (case cosine_similarity_try_with library_result text1 text2 of
        Inl e \<Rightarrow> Inr 0
      | Inr similarity \<Rightarrow> Inr similarity)"

section \<open>models.py and the \<open>/check\<close> handler of main.py\<close>

text \<open>
  The two tables. The primary key of a result row is assigned by the database when the
  row is written, and the handler never reads it: a result row is modelled by the three
  columns the handler sets.
\<close>

record submission =
  sub_id :: nat
  student_id :: string
  filename :: string
  text_content :: string

record plagiarism_result =
  submission1_id :: nat
  submission2_id :: nat
  similarity_score :: real

record database =
  submissions :: "submission list"
  plagiarism_results :: "plagiarism_result list"

text \<open>
  The state of the pair loop: the session's database and \<open>result_count\<close>. One pass of
  the inner loop body, for the indices \<open>i\<close> and \<open>j\<close>: an exception of \<open>run_check\<close>
  is caught and the pair is skipped.
\<close>

definition compare_pair ::
  "submission list \<Rightarrow> nat \<Rightarrow> nat \<Rightarrow> database \<times> nat \<Rightarrow> database \<times> nat" where
  "compare_pair subs i j st =
     (let sub1 = subs ! i; sub2 = subs ! j
      in case run_check_default (text_content sub1) (text_content sub2) of
           Inr score \<Rightarrow>
             (let result = \<lparr>submission1_id = sub_id sub1, submission2_id = sub_id sub2,
                            similarity_score = score\<rparr>
              in ((fst st)\<lparr>plagiarism_results := plagiarism_results (fst st) @ [result]\<rparr>,
                  snd st + 1))
         | Inl e \<Rightarrow> st)"

definition pair_loop :: "submission list \<Rightarrow> database \<times> nat \<Rightarrow> database \<times> nat" where
  "pair_loop subs st =
     fold (\<lambda>i st. fold (\<lambda>j st. compare_pair subs i j st) [i + 1..<length subs] st)
       [0..<length subs] st"

definition check_plagiarism_run :: "database \<Rightarrow> database \<times> nat" where
  "check_plagiarism_run db =
     (let subs = submissions db;
          db = db\<lparr>plagiarism_results := []\<rparr>
      in pair_loop subs (db, 0))"

definition check_plagiarism :: "database \<Rightarrow> database" where
  "check_plagiarism db = fst (check_plagiarism_run db)"

text \<open>
  The index pairs in the order in which the two loops visit them, and the row the loop
  body stores for one of them.
\<close>

definition index_pairs :: "nat \<Rightarrow> (nat \<times> nat) list" where
  "index_pairs n = concat (map (\<lambda>i. map (\<lambda>j. (i, j)) [i + 1..<n]) [0..<n])"

definition scored_pair :: "submission list \<Rightarrow> nat \<Rightarrow> nat \<Rightarrow> plagiarism_result" where
  "scored_pair subs i j =
     \<lparr>submission1_id = sub_id (subs ! i), submission2_id = sub_id (subs ! j),
      similarity_score =
        projr (run_check_default (text_content (subs ! i)) (text_content (subs ! j)))\<rparr>"

section \<open>The quantities of the specification\<close>

text \<open>
  The tokenizer in the words of the specification: a term is a maximal run of
  alphanumeric characters, of length at least 2, of the lowercased text.
\<close>

fun alnum_runs :: "string \<Rightarrow> string \<Rightarrow> string list" where
  "alnum_runs cur [] = (if cur = [] then [] else [cur])"
| "alnum_runs cur (c # cs) =
     (if py_isalnum c then alnum_runs (cur @ [c]) cs
      else (if cur = [] then [] else [cur]) @ alnum_runs [] cs)"

definition spec_terms :: "string \<Rightarrow> string list" where
  "spec_terms doc = filter (\<lambda>w. 2 \<le> length w) (alnum_runs [] (py_lower doc))"

text \<open>
  The weights in the words of the specification: the group vocabulary is the set of the
  terms of the documents of the group (listed in the order of the matrix columns),
  \<open>tf\<close> counts the occurrences of a term among the tokens of one document, \<open>df\<close>
  counts the documents of the group in which the term occurs, and \<open>idf\<close> is
  \<open>ln((1 + N) / (1 + df)) + 1\<close> for a group of \<open>N\<close> documents.
\<close>

definition vocabulary :: "string list \<Rightarrow> string list" where
  "vocabulary docs = sort (remdups (concat (map build_analyzer docs)))"

definition tf :: "string \<Rightarrow> string \<Rightarrow> nat" where
  "tf t doc = count_list (build_analyzer doc) t"

definition df :: "string \<Rightarrow> string list \<Rightarrow> nat" where
  "df t docs = length (filter (\<lambda>doc. t \<in> set (build_analyzer doc)) docs)"

definition idf :: "string \<Rightarrow> string list \<Rightarrow> real" where
  "idf t docs = ln ((1 + real (length docs)) / (1 + real (df t docs))) + 1"

definition raw_weights :: "string \<Rightarrow> string list \<Rightarrow> real list" where
  "raw_weights doc docs = map (\<lambda>t. real (tf t doc) * idf t docs) (vocabulary docs)"

section \<open>Tokens\<close>

lemma of_char_underscore: "c = CHR ''_'' \<longleftrightarrow> (of_char c :: nat) = 95"
proof -
  have "c = CHR ''_'' \<longleftrightarrow> (of_char c :: nat) = of_char CHR ''_''"
    by (simp only: of_char_eq_iff)
  then show ?thesis by simp
qed

lemma isspace_not_word: "py_isspace c \<Longrightarrow> \<not> re_word (py_lower_char c)"
  by (auto simp: py_isspace_def re_word_def py_lower_char_def py_isalnum_def Let_def of_char_underscore)

lemma emit_nil: "emit [] = []"
  by (simp add: emit_def)

lemma scan_tokens_nonword: "\<forall>c\<in>set t. \<not> re_word c \<Longrightarrow> scan_tokens cur t = emit cur"
  by (induction t arbitrary: cur) (simp_all add: emit_nil)

lemma scan_tokens_append_nonword:
  "\<forall>c\<in>set t. \<not> re_word c \<Longrightarrow> scan_tokens cur (s @ t) = scan_tokens cur s"
  by (induction s arbitrary: cur) (simp_all add: scan_tokens_nonword)

lemma scan_tokens_prepend_nonword:
  "\<forall>c\<in>set l. \<not> re_word c \<Longrightarrow> scan_tokens [] (l @ s) = scan_tokens [] s"
  by (induction l) (simp_all add: emit_nil)

lemma strip_decompose:
  "\<exists>l r. s = l @ strip s @ r \<and> (\<forall>c\<in>set l. py_isspace c) \<and> (\<forall>c\<in>set r. py_isspace c)"
proof -
  let ?d = "dropWhile py_isspace s"
  have 1: "s = takeWhile py_isspace s @ ?d" by simp
  have "?d = rev (rev ?d)" by simp
  also have "\<dots> = rev (takeWhile py_isspace (rev ?d) @ dropWhile py_isspace (rev ?d))"
    by (simp only: takeWhile_dropWhile_id)
  also have "\<dots> = strip s @ rev (takeWhile py_isspace (rev ?d))"
    by (simp only: rev_append strip_def)
  finally have 2: "?d = strip s @ rev (takeWhile py_isspace (rev ?d))" .
  have 3: "\<forall>c\<in>set (takeWhile py_isspace s). py_isspace c"
    by (auto dest: set_takeWhileD)
  have 4: "\<forall>c\<in>set (rev (takeWhile py_isspace (rev ?d))). py_isspace c"
    by (auto dest: set_takeWhileD)
  from 1 2 have "s = takeWhile py_isspace s @ strip s @ rev (takeWhile py_isspace (rev ?d))"
    by metis
  with 3 4 show ?thesis by blast
qed

lemma build_analyzer_strip: "build_analyzer (strip s) = build_analyzer s"
proof -
  obtain l r where s: "s = l @ strip s @ r"
    and l: "\<forall>c\<in>set l. py_isspace c" and r: "\<forall>c\<in>set r. py_isspace c"
    using strip_decompose by blast
  have "build_analyzer s = scan_tokens [] (py_lower l @ py_lower (strip s) @ py_lower r)"
    unfolding build_analyzer_def findall_token_pattern_def
    by (subst s) (simp add: py_lower_def)
  also have "\<dots> = scan_tokens [] (py_lower (strip s) @ py_lower r)"
    using l by (intro scan_tokens_prepend_nonword) (auto simp: py_lower_def isspace_not_word)
  also have "\<dots> = scan_tokens [] (py_lower (strip s))"
    using r by (intro scan_tokens_append_nonword) (auto simp: py_lower_def isspace_not_word)
  finally show ?thesis
    by (simp add: build_analyzer_def findall_token_pattern_def)
qed

lemma build_analyzer_whitespace: "\<forall>c\<in>set s. py_isspace c \<Longrightarrow> build_analyzer s = []"
  unfolding build_analyzer_def findall_token_pattern_def
  by (subst scan_tokens_nonword) (auto simp: py_lower_def isspace_not_word emit_nil)


lemma run_of_all_word:
  assumes cur: "\<forall>c\<in>set cur. re_word c" and eq: "cur = pre @ w @ post"
    and pre: "pre = [] \<or> \<not> re_word (last pre)" and post: "post = [] \<or> \<not> re_word (hd post)"
  shows "w = cur"
proof -
  have "pre = []"
  proof (rule ccontr)
    assume "pre \<noteq> []"
    then have "last pre \<in> set cur" using eq by simp
    with cur pre \<open>pre \<noteq> []\<close> show False by blast
  qed
  moreover have "post = []"
  proof (rule ccontr)
    assume "post \<noteq> []"
    then have "hd post \<in> set cur" using eq by simp
    with cur post \<open>post \<noteq> []\<close> show False by blast
  qed
  ultimately show ?thesis using eq by simp
qed

lemma run_across_separator:
  assumes cur: "\<forall>c\<in>set cur. re_word c" and c: "\<not> re_word c"
    and w: "\<forall>x\<in>set w. re_word x" "w \<noteq> []"
    and eq: "cur @ c # cs = pre @ w @ post"
    and pre: "pre = [] \<or> \<not> re_word (last pre)" and post: "post = [] \<or> \<not> re_word (hd post)"
  shows "w = cur \<or> (\<exists>pre'. cs = pre' @ w @ post \<and> (pre' = [] \<or> \<not> re_word (last pre')))"
proof -
  from eq obtain us where
    "(cur = pre @ us \<and> us @ c # cs = w @ post) \<or> (cur @ us = pre \<and> c # cs = us @ w @ post)"
    by (auto simp: append_eq_append_conv2)
  then show ?thesis
  proof
    assume A: "cur = pre @ us \<and> us @ c # cs = w @ post"
    have "pre = []"
    proof (rule ccontr)
      assume "pre \<noteq> []"
      then have "last pre \<in> set cur" using A by simp
      with cur pre \<open>pre \<noteq> []\<close> show False by blast
    qed
    with A have "cur @ c # cs = w @ post" by simp
    then obtain vs where
      "(cur = w @ vs \<and> vs @ c # cs = post) \<or> (cur @ vs = w \<and> c # cs = vs @ post)"
      by (auto simp: append_eq_append_conv2)
    then have "w = cur"
    proof
      assume B: "cur = w @ vs \<and> vs @ c # cs = post"
      show ?thesis
      proof (cases vs)
        case Nil
        with B show ?thesis by simp
      next
        case (Cons v vs')
        with B have "post \<noteq> []" "hd post = v" "v \<in> set cur" by auto
        with cur post show ?thesis by blast
      qed
    next
      assume B: "cur @ vs = w \<and> c # cs = vs @ post"
      show ?thesis
      proof (cases vs)
        case Nil
        with B show ?thesis by simp
      next
        case (Cons v vs')
        with B have "c \<in> set w" by auto
        with w c show ?thesis by blast
      qed
    qed
    then show ?thesis ..
  next
    assume A: "cur @ us = pre \<and> c # cs = us @ w @ post"
    show ?thesis
    proof (cases us)
      case Nil
      with A w have "c \<in> set w" by (cases w) auto
      with w c show ?thesis by blast
    next
      case (Cons u us')
      with A have cs: "cs = us' @ w @ post" and pre_eq: "pre = cur @ c # us'" by auto
      from pre_eq pre have "\<not> re_word (last (c # us'))" by simp
      then have "us' = [] \<or> \<not> re_word (last us')" by (cases us') auto
      with cs show ?thesis by blast
    qed
  qed
qed

lemma scan_tokens_set:
  "\<forall>c\<in>set cur. re_word c \<Longrightarrow>
   set (scan_tokens cur s) =
     {w. 2 \<le> length w \<and> (\<forall>c\<in>set w. re_word c) \<and>
         (\<exists>pre post. cur @ s = pre @ w @ post \<and> (pre = [] \<or> \<not> re_word (last pre)) \<and>
            (post = [] \<or> \<not> re_word (hd post)))}"
proof (induction s arbitrary: cur)
  case Nil
  show ?case
  proof (intro set_eqI iffI)
    fix w assume "w \<in> set (scan_tokens cur [])"
    then have "w = cur" "2 \<le> length cur" by (auto simp: emit_def split: if_splits)
    with Nil show "w \<in> {w. 2 \<le> length w \<and> (\<forall>c\<in>set w. re_word c) \<and>
         (\<exists>pre post. cur @ [] = pre @ w @ post \<and> (pre = [] \<or> \<not> re_word (last pre)) \<and>
            (post = [] \<or> \<not> re_word (hd post)))}"
      by (auto intro!: exI [of _ "[]"])
  next
    fix w assume "w \<in> {w. 2 \<le> length w \<and> (\<forall>c\<in>set w. re_word c) \<and>
         (\<exists>pre post. cur @ [] = pre @ w @ post \<and> (pre = [] \<or> \<not> re_word (last pre)) \<and>
            (post = [] \<or> \<not> re_word (hd post)))}"
    then obtain pre post where "2 \<le> length w" "cur = pre @ w @ post"
      "pre = [] \<or> \<not> re_word (last pre)" "post = [] \<or> \<not> re_word (hd post)" by auto
    with Nil run_of_all_word [of cur pre w post] show "w \<in> set (scan_tokens cur [])"
      by (simp add: emit_def)
  qed
next
  case (Cons c cs)
  show ?case
  proof (cases "re_word c")
    case True
    with Cons.prems have "\<forall>x\<in>set (cur @ [c]). re_word x" by simp
    from Cons.IH [OF this] True show ?thesis by simp
  next
    case False
    have IH: "set (scan_tokens [] cs) =
      {w. 2 \<le> length w \<and> (\<forall>c\<in>set w. re_word c) \<and>
         (\<exists>pre post. cs = pre @ w @ post \<and> (pre = [] \<or> \<not> re_word (last pre)) \<and>
            (post = [] \<or> \<not> re_word (hd post)))}"
      using Cons.IH [of "[]"] by simp
    show ?thesis
    proof (intro set_eqI iffI)
      fix w assume "w \<in> set (scan_tokens cur (c # cs))"
      then consider "w = cur" "2 \<le> length cur" | "w \<in> set (scan_tokens [] cs)"
        using False by (auto simp: emit_def split: if_splits)
      then show "w \<in> {w. 2 \<le> length w \<and> (\<forall>c\<in>set w. re_word c) \<and>
         (\<exists>pre post. cur @ c # cs = pre @ w @ post \<and> (pre = [] \<or> \<not> re_word (last pre)) \<and>
            (post = [] \<or> \<not> re_word (hd post)))}"
      proof cases
        case 1
        have "cur @ c # cs = [] @ w @ (c # cs)" using 1 by simp
        moreover have "c # cs = [] \<or> \<not> re_word (hd (c # cs))" using False by simp
        ultimately have "\<exists>pre post. cur @ c # cs = pre @ w @ post \<and>
            (pre = [] \<or> \<not> re_word (last pre)) \<and> (post = [] \<or> \<not> re_word (hd post))"
          by blast
        with 1 Cons.prems show ?thesis by simp
      next
        case 2
        with IH obtain pre post where w: "2 \<le> length w" "\<forall>c\<in>set w. re_word c"
          "cs = pre @ w @ post" "pre = [] \<or> \<not> re_word (last pre)"
          "post = [] \<or> \<not> re_word (hd post)" by auto
        have "cur @ c # cs = (cur @ c # pre) @ w @ post" using w by simp
        moreover have "\<not> re_word (last (cur @ c # pre))" using w False by auto
        ultimately show ?thesis using w by blast
      qed
    next
      fix w assume "w \<in> {w. 2 \<le> length w \<and> (\<forall>c\<in>set w. re_word c) \<and>
         (\<exists>pre post. cur @ c # cs = pre @ w @ post \<and> (pre = [] \<or> \<not> re_word (last pre)) \<and>
            (post = [] \<or> \<not> re_word (hd post)))}"
      then obtain pre post where w: "2 \<le> length w" "\<forall>c\<in>set w. re_word c"
        "cur @ c # cs = pre @ w @ post" "pre = [] \<or> \<not> re_word (last pre)"
        "post = [] \<or> \<not> re_word (hd post)" by auto
      then have "w \<noteq> []" by auto
      from run_across_separator [OF Cons.prems False w(2) this w(3) w(4) w(5)]
      have "w = cur \<or> (\<exists>pre'. cs = pre' @ w @ post \<and> (pre' = [] \<or> \<not> re_word (last pre')))" .
      then show "w \<in> set (scan_tokens cur (c # cs))"
      proof
        assume "w = cur"
        with w False show ?thesis by (simp add: emit_def)
      next
        assume "\<exists>pre'. cs = pre' @ w @ post \<and> (pre' = [] \<or> \<not> re_word (last pre'))"
        with w IH have "w \<in> set (scan_tokens [] cs)" by blast
        with False show ?thesis by simp
      qed
    qed
  qed
qed

section \<open>Vectors and weights\<close>

subsection \<open>Vectors\<close>

lemma map2_map_map: "map2 f (map g xs) (map h xs) = map (\<lambda>x. f (g x) (h x)) xs"
  by (induction xs) simp_all

lemma dot_map: "dot (map f xs) (map g xs) = (\<Sum>x\<leftarrow>xs. f x * g x)"
  by (simp add: dot_def map2_map_map)

lemma dot_self_map: "dot v v = (\<Sum>x\<leftarrow>v. x * x)"
  using dot_map [of "\<lambda>x. x" v "\<lambda>x. x"] by simp

lemma dot_self_nonneg: "0 \<le> dot v v"
  by (auto simp: dot_self_map intro!: sum_list_nonneg)

lemma l2_norm_nonneg: "0 \<le> l2_norm v"
  by (simp add: l2_norm_def dot_self_nonneg)

lemma l2_norm_sq: "l2_norm v * l2_norm v = dot v v"
  by (simp add: l2_norm_def dot_self_nonneg)

lemma dot_self_zero_iff: "dot v v = 0 \<longleftrightarrow> (\<forall>x\<in>set v. x = 0)"
proof -
  have "(\<Sum>x\<leftarrow>v. x * x) = 0 \<longleftrightarrow> (\<forall>y\<in>set (map (\<lambda>x. x * x) v). y = 0)"
    by (rule sum_list_nonneg_eq_0_iff) auto
  then show ?thesis by (auto simp: dot_self_map)
qed

lemma l2_norm_zero_iff: "l2_norm v = 0 \<longleftrightarrow> (\<forall>x\<in>set v. x = 0)"
  by (simp add: l2_norm_def dot_self_zero_iff)

lemma dot_scale: "dot (map (\<lambda>x. k * x) u) (map (\<lambda>x. l * x) v) = k * l * dot u v"
proof (induction u arbitrary: v)
  case Nil
  then show ?case by (simp add: dot_def)
next
  case (Cons a u)
  then show ?case by (cases v) (simp_all add: dot_def algebra_simps)
qed

lemma normalize_scale: "\<exists>k>0. normalize_l2 v = map (\<lambda>x. k * x) v"
proof (cases "l2_norm v = 0")
  case True
  then have "normalize_l2 v = map (\<lambda>x. 1 * x) v" by (simp add: normalize_l2_def)
  then show ?thesis by (intro exI [of _ 1]) simp
next
  case False
  with l2_norm_nonneg [of v] have "0 < 1 / l2_norm v" by simp
  moreover have "normalize_l2 v = map (\<lambda>x. (1 / l2_norm v) * x) v"
    using False by (simp add: normalize_l2_def)
  ultimately show ?thesis by blast
qed

lemma l2_norm_normalize: "l2_norm v \<noteq> 0 \<Longrightarrow> l2_norm (normalize_l2 v) = 1"
proof -
  assume nz: "l2_norm v \<noteq> 0"
  then have "normalize_l2 v = map (\<lambda>x. (1 / l2_norm v) * x) v"
    by (simp add: normalize_l2_def)
  then have "dot (normalize_l2 v) (normalize_l2 v) = (1 / l2_norm v) * (1 / l2_norm v) * dot v v"
    by (simp only: dot_scale)
  also have "\<dots> = 1" using nz by (simp add: l2_norm_sq [symmetric])
  finally show ?thesis by (simp add: l2_norm_def)
qed

lemma normalize_idem: "normalize_l2 (normalize_l2 v) = normalize_l2 v"
proof (cases "l2_norm v = 0")
  case True
  then show ?thesis by (simp add: normalize_l2_def)
next
  case False
  then have "l2_norm (normalize_l2 v) = 1" by (rule l2_norm_normalize)
  then show ?thesis by (subst normalize_l2_def) simp
qed

lemma l2_norm_normalize_le: "dot (normalize_l2 v) (normalize_l2 v) \<le> 1"
proof (cases "l2_norm v = 0")
  case True
  then have "dot v v = 0" using l2_norm_sq [of v] by simp
  with True show ?thesis by (simp add: normalize_l2_def)
next
  case False
  then have "l2_norm (normalize_l2 v) = 1" by (rule l2_norm_normalize)
  then show ?thesis using l2_norm_sq [of "normalize_l2 v"] by simp
qed

subsection \<open>The matrix computation and the weights of the specification\<close>

lemma map_nth_vocab: "map (\<lambda>j. F (xs ! j)) [0..<length xs] = map F xs"
  by (rule nth_equalityI) simp_all

lemma count_nonzero_iff: "0 < count_list xs t \<longleftrightarrow> t \<in> set xs"
  using count_list_0_iff [of xs t] by auto

lemma document_frequency_eq:
  "document_frequency (length (vocabulary docs))
     (map (\<lambda>toks. map (\<lambda>t. count_list toks t) (vocabulary docs)) (map build_analyzer docs)) =
   map (\<lambda>t. df t docs) (vocabulary docs)"
proof -
  have "\<And>j. j < length (vocabulary docs) \<Longrightarrow>
      length (filter (\<lambda>row. row ! j \<noteq> 0)
        (map (\<lambda>toks. map (\<lambda>t. count_list toks t) (vocabulary docs)) (map build_analyzer docs))) =
      df (vocabulary docs ! j) docs"
    by (simp add: df_def filter_map o_def count_nonzero_iff)
  then have "document_frequency (length (vocabulary docs))
     (map (\<lambda>toks. map (\<lambda>t. count_list toks t) (vocabulary docs)) (map build_analyzer docs)) =
     map (\<lambda>j. df (vocabulary docs ! j) docs) [0..<length (vocabulary docs)]"
    unfolding document_frequency_def by (intro map_cong) simp_all
  then show ?thesis
    using map_nth_vocab [of "\<lambda>t. df t docs" "vocabulary docs"] by simp
qed

lemma idf_vector_eq:
  "idf_vector (length (vocabulary docs))
     (map (\<lambda>toks. map (\<lambda>t. count_list toks t) (vocabulary docs)) (map build_analyzer docs)) =
   map (\<lambda>t. idf t docs) (vocabulary docs)"
  unfolding idf_vector_def document_frequency_eq
  by (simp add: idf_def add.commute)

lemma tfidf_transform_eq:
  "tfidf_transform (length (vocabulary docs))
     (map (\<lambda>toks. map (\<lambda>t. count_list toks t) (vocabulary docs)) (map build_analyzer docs)) =
   map (\<lambda>d. normalize_l2 (raw_weights d docs)) docs"
  unfolding tfidf_transform_def idf_vector_eq
  by (simp add: map2_map_map raw_weights_def tf_def)

lemma fit_transform_eq:
  "fit_transform docs =
     (if vocabulary docs = []
      then Inl (ValueError ''empty vocabulary; perhaps the documents only contain stop words'')
      else Inr (map (\<lambda>d. normalize_l2 (raw_weights d docs)) docs))"
  using tfidf_transform_eq [of docs]
  by (simp add: fit_transform_def count_vocab_def Let_def vocabulary_def)

lemma cosine_pair:
  "getitem2 (cosine_similarity [u, v]) 0 (Suc 0) = Inr (dot (normalize_l2 u) (normalize_l2 v))"
  by (simp add: getitem2_def cosine_similarity_def Let_def)

lemma cosine_similarity_try_eq:
  "cosine_similarity_try a b =
     (if strip a = [] \<or> strip b = [] then Inr 0
      else if vocabulary [strip a, strip b] = []
      then Inl (ValueError ''empty vocabulary; perhaps the documents only contain stop words'')
      else Inr (dot (normalize_l2 (raw_weights (strip a) [strip a, strip b]))
                    (normalize_l2 (raw_weights (strip b) [strip a, strip b]))))"
  by (simp add: cosine_similarity_try_def Let_def fit_transform_eq cosine_pair normalize_idem)


subsection \<open>Stripping does not change the tokens\<close>


lemma vocabulary_strip: "vocabulary [strip a, strip b] = vocabulary [a, b]"
  by (simp add: vocabulary_def build_analyzer_strip)

lemma raw_weights_strip:
  "raw_weights (strip a) [strip a, strip b] = raw_weights a [a, b]"
  "raw_weights (strip b) [strip a, strip b] = raw_weights b [a, b]"
  by (simp_all add: raw_weights_def vocabulary_strip tf_def idf_def df_def build_analyzer_strip)

lemma set_vocabulary: "set (vocabulary docs) = (\<Union>d\<in>set docs. set (build_analyzer d))"
  by (simp add: vocabulary_def)

lemma build_analyzer_nil: "build_analyzer [] = []"
  by (simp add: build_analyzer_def findall_token_pattern_def py_lower_def emit_def)

lemma strip_nonempty: "build_analyzer a \<noteq> [] \<Longrightarrow> strip a \<noteq> []"
  using build_analyzer_strip [of a] build_analyzer_nil by auto

subsection \<open>Scores\<close>

lemma dot_normalize_raw:
  "\<exists>k l. dot (normalize_l2 (raw_weights a docs)) (normalize_l2 (raw_weights b docs)) =
     k * l * (\<Sum>t\<leftarrow>vocabulary docs. (real (tf t a) * idf t docs) * (real (tf t b) * idf t docs))"
proof -
  obtain k where k: "normalize_l2 (raw_weights a docs) = map (\<lambda>x. k * x) (raw_weights a docs)"
    using normalize_scale by blast
  obtain l where l: "normalize_l2 (raw_weights b docs) = map (\<lambda>x. l * x) (raw_weights b docs)"
    using normalize_scale by blast
  have "dot (raw_weights a docs) (raw_weights b docs) =
      (\<Sum>t\<leftarrow>vocabulary docs. (real (tf t a) * idf t docs) * (real (tf t b) * idf t docs))"
    unfolding raw_weights_def by (rule dot_map)
  then have "dot (normalize_l2 (raw_weights a docs)) (normalize_l2 (raw_weights b docs)) =
     k * l * (\<Sum>t\<leftarrow>vocabulary docs. (real (tf t a) * idf t docs) * (real (tf t b) * idf t docs))"
    by (simp only: k l dot_scale)
  then show ?thesis by blast
qed

lemma score_disjoint:
  assumes "set (build_analyzer a) \<inter> set (build_analyzer b) = {}"
  shows "cosine_similarity_check a b = Inr 0"
proof -
  have "\<And>t. real (tf t a) * real (tf t b) = 0"
    using assms by (auto simp: tf_def count_list_0_iff)
  then have z: "\<And>t. (real (tf t a) * idf t [a, b]) * (real (tf t b) * idf t [a, b]) = 0"
    by (metis mult_eq_0_iff)
  have "(\<Sum>t\<leftarrow>vocabulary [a, b].
      (real (tf t a) * idf t [a, b]) * (real (tf t b) * idf t [a, b])) = 0"
    unfolding z by simp
  with dot_normalize_raw [of a "[a, b]" b]
  have "dot (normalize_l2 (raw_weights a [a, b])) (normalize_l2 (raw_weights b [a, b])) = 0"
    by auto
  then show ?thesis
    by (simp add: cosine_similarity_check_def cosine_similarity_try_eq vocabulary_strip
        raw_weights_strip)
qed

lemma idf_self: "t \<in> set (build_analyzer a) \<Longrightarrow> idf t [a, a] = 1"
  by (simp add: idf_def df_def)

lemma score_identical:
  assumes "build_analyzer a \<noteq> []"
  shows "cosine_similarity_check a a = Inr 1"
proof -
  from assms obtain t where t: "t \<in> set (build_analyzer a)" by (cases "build_analyzer a") auto
  then have tv: "t \<in> set (vocabulary [a, a])" by (simp add: set_vocabulary)
  then have vne: "vocabulary [a, a] \<noteq> []" by auto
  have "real (tf t a) * idf t [a, a] \<noteq> 0"
    using t by (simp add: idf_self tf_def count_list_0_iff)
  with tv have "\<exists>x\<in>set (raw_weights a [a, a]). x \<noteq> 0"
    by (auto simp: raw_weights_def)
  then have "l2_norm (raw_weights a [a, a]) \<noteq> 0"
    by (simp add: l2_norm_zero_iff)
  then have "l2_norm (normalize_l2 (raw_weights a [a, a])) = 1"
    by (rule l2_norm_normalize)
  then have "dot (normalize_l2 (raw_weights a [a, a])) (normalize_l2 (raw_weights a [a, a])) = 1"
    using l2_norm_sq [of "normalize_l2 (raw_weights a [a, a])"] by simp
  then show ?thesis
    using vne strip_nonempty [OF assms]
    by (simp add: cosine_similarity_check_def cosine_similarity_try_eq vocabulary_strip
        raw_weights_strip)
qed

section \<open>The pair loop\<close>

lemma cosine_similarity_check_returns:
  "cosine_similarity_check a b = Inr (projr (cosine_similarity_check a b))"
  by (simp add: cosine_similarity_check_def split: sum.splits)

lemma run_check_default_returns:
  "run_check_default a b = Inr (projr (run_check_default a b))"
  using cosine_similarity_check_returns [of a b]
  by (simp add: run_check_default_def run_check_def)

lemma compare_pair_adds:
  "compare_pair subs i j (db, k) =
     (db\<lparr>plagiarism_results := plagiarism_results db @ [scored_pair subs i j]\<rparr>, k + 1)"
proof -
  obtain s where s: "run_check_default (text_content (subs ! i)) (text_content (subs ! j)) = Inr s"
    using run_check_default_returns by blast
  then show ?thesis
    by (simp add: compare_pair_def scored_pair_def Let_def)
qed

lemma inner_loop_adds:
  "fold (\<lambda>j st. compare_pair subs i j st) js (db, k) =
     (db\<lparr>plagiarism_results := plagiarism_results db @ map (scored_pair subs i) js\<rparr>,
      k + length js)"
  by (induction js arbitrary: db k) (simp_all add: compare_pair_adds)

lemma outer_loop_adds:
  "fold (\<lambda>i st. fold (\<lambda>j st. compare_pair subs i j st) [i + 1..<n] st) is (db, k) =
     (db\<lparr>plagiarism_results := plagiarism_results db @
          concat (map (\<lambda>i. map (scored_pair subs i) [i + 1..<n]) is)\<rparr>,
      k + length (concat (map (\<lambda>i. map (\<lambda>j. (i, j)) [i + 1..<n]) is)))"
  by (induction "is" arbitrary: db k) (simp_all add: inner_loop_adds)

lemma concat_scored_pairs:
  "concat (map (\<lambda>i. map (scored_pair subs i) [i + 1..<n]) is) =
     map (\<lambda>(i, j). scored_pair subs i j) (concat (map (\<lambda>i. map (\<lambda>j. (i, j)) [i + 1..<n]) is))"
  by (induction "is") simp_all

lemma check_plagiarism_run_eq:
  "check_plagiarism_run db =
     (db\<lparr>plagiarism_results :=
          map (\<lambda>(i, j). scored_pair (submissions db) i j) (index_pairs (length (submissions db)))\<rparr>,
      length (index_pairs (length (submissions db))))"
  unfolding check_plagiarism_run_def pair_loop_def Let_def outer_loop_adds concat_scored_pairs
    index_pairs_def
  by simp

lemma set_index_pairs: "set (index_pairs n) = {(i, j). i < j \<and> j < n}"
  by (auto simp: index_pairs_def image_iff)

lemma distinct_index_pairs_aux:
  "distinct (concat (map (\<lambda>i. map (\<lambda>j. (i, j)) [i + 1..<n]) [0..<m]))"
  by (induction m) (auto simp: distinct_map inj_on_def)

lemma distinct_index_pairs: "distinct (index_pairs n)"
  by (simp only: index_pairs_def distinct_index_pairs_aux)

lemma length_index_pairs_aux:
  "length (concat (map (\<lambda>i. map (\<lambda>j. (i, j)) [i + 1..<n]) [0..<m])) = (\<Sum>i<m. n - (i + 1))"
  by (induction m) simp_all

lemma sum_pred_gauss_aux: "(m::nat) \<le> n \<Longrightarrow> 2 * (\<Sum>i<m. n - (i + 1)) + m * (m + 1) = 2 * m * n"
proof (induction m)
  case 0
  then show ?case by simp
next
  case (Suc m)
  then have "2 * (\<Sum>i<m. n - (i + 1)) + m * (m + 1) = 2 * m * n" and "m < n" by simp_all
  then show ?case by (simp add: algebra_simps)
qed

lemma sum_pred_gauss: "(\<Sum>i<n. n - (i + 1)) = (n::nat) * (n - 1) div 2"
proof -
  have "2 * (\<Sum>i<n. n - (i + 1)) + n * (n + 1) = 2 * n * n"
    by (rule sum_pred_gauss_aux) simp
  then have "2 * (\<Sum>i<n. n - (i + 1)) = n * (n - 1)"
    by (cases n) (simp_all add: algebra_simps)
  then show ?thesis by (metis nonzero_mult_div_cancel_left zero_neq_numeral)
qed

lemma length_index_pairs: "length (index_pairs n) = n * (n - 1) div 2"
  by (simp only: index_pairs_def length_index_pairs_aux sum_pred_gauss)

subsection \<open>Bounds of the score\<close>

lemma idf_nonneg: "0 \<le> idf t [a, b]"
proof -
  have "df t [a, b] \<le> 2" by (simp add: df_def)
  then have "1 \<le> (1 + real (length [a, b])) / (1 + real (df t [a, b]))" by simp
  then have "0 \<le> ln ((1 + real (length [a, b])) / (1 + real (df t [a, b])))" by simp
  then show ?thesis by (simp add: idf_def)
qed

lemma dot_le_squares: "length u = length v \<Longrightarrow> 2 * dot u v \<le> dot u u + dot v v"
proof (induction u v rule: list_induct2)
  case Nil
  then show ?case by (simp add: dot_def)
next
  case (Cons x xs y ys)
  have "2 * (x * y) \<le> x * x + y * y"
    using sum_squares_bound [of x y] by (simp add: power2_eq_square)
  with Cons show ?case by (simp add: dot_def algebra_simps)
qed

lemma length_normalize_l2: "length (normalize_l2 v) = length v"
  by (simp add: normalize_l2_def)

lemma score_unit_interval:
  "0 \<le> dot (normalize_l2 (raw_weights a [a, b])) (normalize_l2 (raw_weights b [a, b])) \<and>
   dot (normalize_l2 (raw_weights a [a, b])) (normalize_l2 (raw_weights b [a, b])) \<le> 1"
proof -
  let ?u = "normalize_l2 (raw_weights a [a, b])" and ?v = "normalize_l2 (raw_weights b [a, b])"
  obtain k where k: "0 < k" "?u = map (\<lambda>x. k * x) (raw_weights a [a, b])"
    using normalize_scale by blast
  obtain l where l: "0 < l" "?v = map (\<lambda>x. l * x) (raw_weights b [a, b])"
    using normalize_scale by blast
  have "dot (raw_weights a [a, b]) (raw_weights b [a, b]) =
      (\<Sum>t\<leftarrow>vocabulary [a, b]. (real (tf t a) * idf t [a, b]) * (real (tf t b) * idf t [a, b]))"
    unfolding raw_weights_def by (rule dot_map)
  moreover have "0 \<le> (\<Sum>t\<leftarrow>vocabulary [a, b].
      (real (tf t a) * idf t [a, b]) * (real (tf t b) * idf t [a, b]))"
    by (rule sum_list_nonneg) (auto simp: idf_nonneg)
  ultimately have "0 \<le> dot (raw_weights a [a, b]) (raw_weights b [a, b])" by simp
  moreover have "dot ?u ?v = k * l * dot (raw_weights a [a, b]) (raw_weights b [a, b])"
    by (simp only: k(2) l(2) dot_scale)
  ultimately have lower: "0 \<le> dot ?u ?v" using k(1) l(1) by simp
  have "length ?u = length ?v" by (simp add: length_normalize_l2 raw_weights_def)
  then have "2 * dot ?u ?v \<le> dot ?u ?u + dot ?v ?v" by (rule dot_le_squares)
  moreover have "dot ?u ?u \<le> 1" "dot ?v ?v \<le> 1" by (rule l2_norm_normalize_le)+
  ultimately have "dot ?u ?v \<le> 1" by simp
  with lower show ?thesis by simp
qed

text \<open>
  In exact arithmetic the score lies between 0 and 1. The code does not clip the value
  the library returns, so this says nothing about the rounded float64 result.
\<close>

lemma cosine_similarity_check_exact_bounds:
  "\<exists>s. cosine_similarity_check a b = Inr s \<and> 0 \<le> s \<and> s \<le> 1"
  using score_unit_interval [of a b]
  by (simp add: cosine_similarity_check_def cosine_similarity_try_eq vocabulary_strip
      raw_weights_strip)


section \<open>Evaluation on concrete texts\<close>

lemmas tok_eval = build_analyzer_def findall_token_pattern_def py_lower_def py_lower_char_def
  re_word_def py_isalnum_def emit_def

section \<open>The dispatcher and the \<open>/check\<close> run\<close>

text \<open>
  Claim C10. \<open>run_check\<close> raises \<open>ValueError\<close> for every algorithm string other than
  \<open>"cosine_similarity"\<close>; for that string, which is the default, it returns what
  \<open>cosine_similarity_check\<close> returns for the two texts.
\<close>
theorem run_check_dispatch:
  "(algorithm \<noteq> ''cosine_similarity'' \<longrightarrow>
      run_check text1 text2 algorithm = Inl (ValueError ''Unsupported algorithm'')) \<and>
   run_check text1 text2 ''cosine_similarity'' = cosine_similarity_check text1 text2 \<and>
   run_check_default text1 text2 = cosine_similarity_check text1 text2"
  by (simp add: run_check_def run_check_default_def)

theorem run_check_dispatch_witness:
  "''jaccard'' \<noteq> ''cosine_similarity'' \<and>
   run_check ''ab cd'' ''ab'' ''jaccard'' = Inl (ValueError ''Unsupported algorithm'')"
  using run_check_dispatch [where algorithm = "''jaccard''" and ?text1.0 = "''ab cd''"
      and ?text2.0 = "''ab''"]
  by simp

text \<open>
  Claim C5. For \<open>n\<close> stored submissions one run stores \<open>n * (n - 1) / 2\<close> rows, and
  \<open>result_count\<close> is that number. The rows are, in order, those of the index pairs
  \<open>(i, j)\<close> with \<open>i < j < n\<close>, each pair once: the row of \<open>(i, j)\<close> carries the
  id of the submission at position \<open>i\<close>, then the id of the one at position \<open>j\<close>, and
  the score \<open>run_check\<close> returned for their texts.
\<close>
theorem check_plagiarism_pair_completeness:
  "length (plagiarism_results (check_plagiarism db)) =
     length (submissions db) * (length (submissions db) - 1) div 2 \<and>
   snd (check_plagiarism_run db) = length (submissions db) * (length (submissions db) - 1) div 2 \<and>
   distinct (index_pairs (length (submissions db))) \<and>
   set (index_pairs (length (submissions db))) =
     {(i, j). i < j \<and> j < length (submissions db)} \<and>
   list_all2
     (\<lambda>r (i, j). submission1_id r = sub_id (submissions db ! i) \<and>
        submission2_id r = sub_id (submissions db ! j) \<and>
        run_check_default (text_content (submissions db ! i)) (text_content (submissions db ! j))
          = Inr (similarity_score r))
     (plagiarism_results (check_plagiarism db)) (index_pairs (length (submissions db)))"
proof -
  have "list_all2
     (\<lambda>r (i, j). submission1_id r = sub_id (submissions db ! i) \<and>
        submission2_id r = sub_id (submissions db ! j) \<and>
        run_check_default (text_content (submissions db ! i)) (text_content (submissions db ! j))
          = Inr (similarity_score r))
     (map (\<lambda>(i, j). scored_pair (submissions db) i j) (index_pairs (length (submissions db))))
     (index_pairs (length (submissions db)))"
    by (rule list_all2_all_nthI)
       (auto simp: scored_pair_def split_beta run_check_default_returns [symmetric])
  then show ?thesis
    by (simp add: check_plagiarism_def check_plagiarism_run_eq length_index_pairs
        distinct_index_pairs set_index_pairs)
qed

text \<open>
  Claim C9. A run leaves the submissions as they are; the results it leaves are the rows of
  this run's pairs and nothing else, whatever rows were stored before.
\<close>
theorem check_plagiarism_supersedes:
  "submissions (check_plagiarism db) = submissions db \<and>
   plagiarism_results (check_plagiarism db) =
     map (\<lambda>(i, j). scored_pair (submissions db) i j) (index_pairs (length (submissions db))) \<and>
   check_plagiarism (db\<lparr>plagiarism_results := old\<rparr>) = check_plagiarism db"
  by (simp add: check_plagiarism_def check_plagiarism_run_eq)

lemma stored_rows_scored:
  "list_all2
     (\<lambda>r (k, l). submission1_id r = sub_id (subs ! k) \<and> submission2_id r = sub_id (subs ! l) \<and>
        run_check_default (text_content (subs ! k)) (text_content (subs ! l))
          = Inr (similarity_score r))
     (map (\<lambda>(i, j). scored_pair subs i j) ps) ps"
  by (rule list_all2_all_nthI)
     (auto simp: scored_pair_def split_beta run_check_default_returns [symmetric])

lemma index_pairs_4: "index_pairs 4 = [(0, 1), (0, 2), (0, 3), (1, 2), (1, 3), (2, 3)]"
  by code_simp

text \<open>
  Claim C4. When the body of \<open>cosine_similarity_check\<close> raises for the pair at the
  positions \<open>i < j\<close>, the run stores the row of that pair with the score 0 and goes on:
  it stores \<open>n * (n - 1) / 2\<close> rows, one for every index pair and in their order, each
  with the ids of its two submissions and the score \<open>run_check\<close> returned for their
  texts.
\<close>
theorem pair_failure_scores_zero:
  assumes "i < j" and "j < length (submissions db)"
    and "cosine_similarity_try (text_content (submissions db ! i))
           (text_content (submissions db ! j)) = Inl e"
  shows "\<lparr>submission1_id = sub_id (submissions db ! i),
          submission2_id = sub_id (submissions db ! j), similarity_score = 0\<rparr>
           \<in> set (plagiarism_results (check_plagiarism db)) \<and>
         length (plagiarism_results (check_plagiarism db)) =
           length (submissions db) * (length (submissions db) - 1) div 2 \<and>
         list_all2
           (\<lambda>r (k, l). submission1_id r = sub_id (submissions db ! k) \<and>
              submission2_id r = sub_id (submissions db ! l) \<and>
              run_check_default (text_content (submissions db ! k))
                (text_content (submissions db ! l)) = Inr (similarity_score r))
           (plagiarism_results (check_plagiarism db)) (index_pairs (length (submissions db)))"
proof -
  have "run_check_default (text_content (submissions db ! i)) (text_content (submissions db ! j))
      = Inr 0"
    using assms(3) by (simp add: run_check_default_def run_check_def cosine_similarity_check_def)
  then have "scored_pair (submissions db) i j =
      \<lparr>submission1_id = sub_id (submissions db ! i),
       submission2_id = sub_id (submissions db ! j), similarity_score = 0\<rparr>"
    by (simp add: scored_pair_def)
  moreover have "(i, j) \<in> set (index_pairs (length (submissions db)))"
    using assms(1,2) by (simp add: set_index_pairs)
  ultimately have "\<lparr>submission1_id = sub_id (submissions db ! i),
          submission2_id = sub_id (submissions db ! j), similarity_score = 0\<rparr>
           \<in> set (map (\<lambda>(i, j). scored_pair (submissions db) i j)
                 (index_pairs (length (submissions db))))"
    by force
  then show ?thesis
    using stored_rows_scored [of "submissions db" "index_pairs (length (submissions db))"]
    by (simp add: check_plagiarism_def check_plagiarism_run_eq length_index_pairs)
qed

theorem pair_failure_scores_zero_witness:
  "(0::nat) < 1 \<and>
   1 < length (submissions \<lparr>submissions =
         [\<lparr>sub_id = 1, student_id = ''s1'', filename = ''f1.txt'', text_content = ''a''\<rparr>,
          \<lparr>sub_id = 2, student_id = ''s2'', filename = ''f2.txt'', text_content = ''b''\<rparr>,
          \<lparr>sub_id = 3, student_id = ''s3'', filename = ''f3.txt'', text_content = ''ab''\<rparr>,
          \<lparr>sub_id = 4, student_id = ''s4'', filename = ''f4.txt'', text_content = ''ab''\<rparr>],
       plagiarism_results = []\<rparr>) \<and>
   cosine_similarity_try ''a'' ''b'' =
     Inl (ValueError ''empty vocabulary; perhaps the documents only contain stop words'') \<and>
   \<lparr>submission1_id = 1, submission2_id = 2, similarity_score = 0\<rparr>
     \<in> set (plagiarism_results (check_plagiarism \<lparr>submissions =
         [\<lparr>sub_id = 1, student_id = ''s1'', filename = ''f1.txt'', text_content = ''a''\<rparr>,
          \<lparr>sub_id = 2, student_id = ''s2'', filename = ''f2.txt'', text_content = ''b''\<rparr>,
          \<lparr>sub_id = 3, student_id = ''s3'', filename = ''f3.txt'', text_content = ''ab''\<rparr>,
          \<lparr>sub_id = 4, student_id = ''s4'', filename = ''f4.txt'', text_content = ''ab''\<rparr>],
       plagiarism_results = []\<rparr>)) \<and>
   length (plagiarism_results (check_plagiarism \<lparr>submissions =
         [\<lparr>sub_id = 1, student_id = ''s1'', filename = ''f1.txt'', text_content = ''a''\<rparr>,
          \<lparr>sub_id = 2, student_id = ''s2'', filename = ''f2.txt'', text_content = ''b''\<rparr>,
          \<lparr>sub_id = 3, student_id = ''s3'', filename = ''f3.txt'', text_content = ''ab''\<rparr>,
          \<lparr>sub_id = 4, student_id = ''s4'', filename = ''f4.txt'', text_content = ''ab''\<rparr>],
       plagiarism_results = []\<rparr>)) = 6 \<and>
   \<lparr>submission1_id = 3, submission2_id = 4, similarity_score = 1\<rparr>
     \<in> set (plagiarism_results (check_plagiarism \<lparr>submissions =
         [\<lparr>sub_id = 1, student_id = ''s1'', filename = ''f1.txt'', text_content = ''a''\<rparr>,
          \<lparr>sub_id = 2, student_id = ''s2'', filename = ''f2.txt'', text_content = ''b''\<rparr>,
          \<lparr>sub_id = 3, student_id = ''s3'', filename = ''f3.txt'', text_content = ''ab''\<rparr>,
          \<lparr>sub_id = 4, student_id = ''s4'', filename = ''f4.txt'', text_content = ''ab''\<rparr>],
       plagiarism_results = []\<rparr>))"
proof -
  define db where "db = \<lparr>submissions =
         [\<lparr>sub_id = 1, student_id = ''s1'', filename = ''f1.txt'', text_content = ''a''\<rparr>,
          \<lparr>sub_id = 2, student_id = ''s2'', filename = ''f2.txt'', text_content = ''b''\<rparr>,
          \<lparr>sub_id = 3, student_id = ''s3'', filename = ''f3.txt'', text_content = ''ab''\<rparr>,
          \<lparr>sub_id = 4, student_id = ''s4'', filename = ''f4.txt'', text_content = ''ab''\<rparr>],
       plagiarism_results = []\<rparr>"
  let ?rs = "plagiarism_results (check_plagiarism db)"
  have n: "length (submissions db) = 4" by (simp add: db_def)
  have t: "cosine_similarity_try ''a'' ''b'' =
     Inl (ValueError ''empty vocabulary; perhaps the documents only contain stop words'')"
    by (simp add: cosine_similarity_try_def strip_def py_isspace_def fit_transform_def
        count_vocab_def tok_eval)
  have h3: "cosine_similarity_try (text_content (submissions db ! 0))
      (text_content (submissions db ! 1)) =
     Inl (ValueError ''empty vocabulary; perhaps the documents only contain stop words'')"
    using t by (simp add: db_def)
  have h1: "(0::nat) < 1" by simp
  have h2: "1 < length (submissions db)" by (simp add: n)
  note w = pair_failure_scores_zero [OF h1 h2 h3]
  from w have r01: "\<lparr>submission1_id = 1, submission2_id = 2, similarity_score = 0\<rparr> \<in> set ?rs"
    by (simp add: db_def)
  from w have len: "length ?rs = 6" by (simp add: n)
  from w have all: "list_all2
           (\<lambda>r (k, l). submission1_id r = sub_id (submissions db ! k) \<and>
              submission2_id r = sub_id (submissions db ! l) \<and>
              run_check_default (text_content (submissions db ! k))
                (text_content (submissions db ! l)) = Inr (similarity_score r))
           ?rs (index_pairs 4)"
    by (simp only: n)
  have "ab": "run_check_default ''ab'' ''ab'' = Inr 1"
    using score_identical [of "''ab''"]
    by (simp add: run_check_default_def run_check_def tok_eval)
  from list_all2_nthD [OF all, of 5] len
  have "submission1_id (?rs ! 5) = 3 \<and> submission2_id (?rs ! 5) = 4 \<and>
      run_check_default ''ab'' ''ab'' = Inr (similarity_score (?rs ! 5))"
    by (simp add: index_pairs_4 db_def)
  with "ab" have "?rs ! 5 = \<lparr>submission1_id = 3, submission2_id = 4, similarity_score = 1\<rparr>"
    by simp
  moreover have "?rs ! 5 \<in> set ?rs" using len by simp
  ultimately have r23: "\<lparr>submission1_id = 3, submission2_id = 4, similarity_score = 1\<rparr> \<in> set ?rs"
    by simp
  from h1 h2 t r01 len r23 show ?thesis unfolding db_def by (simp only:) 
qed

section \<open>Scores of the similarity check\<close>

lemma cosine_similarity_check_exact:
  "cosine_similarity_check a b =
     cosine_similarity_check_with (exact_similarity (strip a) (strip b)) a b"
  by (simp add: cosine_similarity_check_def cosine_similarity_try_def
      cosine_similarity_check_with_def cosine_similarity_try_with_def exact_similarity_def Let_def)


text \<open>
  Claim C1, as stated, fails: nothing clamps the value of the library. For the texts
  \<open>ab cd\<close> and \<open>ab cd\<close> the library returns the float64 value
  1.0000000000000002, which is \<open>1 + 1 / 2 ^ 52\<close>, and \<open>cosine_similarity_check\<close> returns
  it as it is.
\<close>
theorem unclamped_score_counterexample:
  "cosine_similarity_check_with (Inr (1 + 1 / 2 ^ 52)) ''ab cd'' ''ab cd'' = Inr (1 + 1 / 2 ^ 52) \<and>
   \<not> (1 + 1 / 2 ^ 52 \<le> (1::real))"
  by (simp add: cosine_similarity_check_with_def cosine_similarity_try_with_def strip_def
      py_isspace_def)

text \<open>
  Claim C1, amended. \<open>cosine_similarity_check\<close> returns the value of the library
  unchanged when both stripped texts are non-empty and the library returns, and 0 when a
  stripped text is empty or the library raises. So its result lies in the interval from 0
  to 1 whenever the value of the library does, as it does in exact arithmetic.
\<close>
theorem score_is_library_value_or_zero:
  "(strip a \<noteq> [] \<and> strip b \<noteq> [] \<longrightarrow> cosine_similarity_check_with (Inr s) a b = Inr s) \<and>
   (strip a = [] \<or> strip b = [] \<longrightarrow> cosine_similarity_check_with library_result a b = Inr 0) \<and>
   cosine_similarity_check_with (Inl e) a b = Inr 0 \<and>
   ((\<forall>x. library_result = Inr x \<longrightarrow> 0 \<le> x \<and> x \<le> 1) \<longrightarrow>
      (\<exists>r. cosine_similarity_check_with library_result a b = Inr r \<and> 0 \<le> r \<and> r \<le> 1)) \<and>
   (\<exists>r. cosine_similarity_check_with (exact_similarity (strip a) (strip b)) a b = Inr r \<and>
      0 \<le> r \<and> r \<le> 1)"
proof -
  have "\<exists>r. cosine_similarity_check_with (exact_similarity (strip a) (strip b)) a b = Inr r \<and>
      0 \<le> r \<and> r \<le> 1"
    using cosine_similarity_check_exact_bounds [of a b]
    by (simp only: cosine_similarity_check_exact)
  then show ?thesis
    by (auto simp: cosine_similarity_check_with_def cosine_similarity_try_with_def Let_def
        split: sum.splits)
qed

theorem score_is_library_value_or_zero_witness:
  "strip ''ab cd'' \<noteq> [] \<and>
   cosine_similarity_check_with (Inr (1 / 2)) ''ab cd'' ''ab cd'' = Inr (1 / 2) \<and>
   strip ''  '' = [] \<and>
   cosine_similarity_check_with (Inr (1 / 2)) ''  '' ''ab cd'' = Inr 0 \<and>
   (0::real) \<le> 1 / 2 \<and> (1 / 2 :: real) \<le> 1"
proof -
  have 1: "strip ''ab cd'' \<noteq> []" by (simp add: strip_def py_isspace_def)
  have 2: "strip ''  '' = []" by (simp add: strip_def py_isspace_def)
  from score_is_library_value_or_zero [where a = "''ab cd''" and b = "''ab cd''" and s = "1 / 2",
      THEN conjunct1]
  have "strip ''ab cd'' \<noteq> [] \<and> strip ''ab cd'' \<noteq> [] \<longrightarrow>
      cosine_similarity_check_with (Inr (1 / 2)) ''ab cd'' ''ab cd'' = Inr (1 / 2)" .
  with 1 have 3: "cosine_similarity_check_with (Inr (1 / 2)) ''ab cd'' ''ab cd'' = Inr (1 / 2)"
    by simp
  from score_is_library_value_or_zero [where a = "''  ''" and b = "''ab cd''"
      and library_result = "Inr (1 / 2)", THEN conjunct2, THEN conjunct1]
  have "strip ''  '' = [] \<or> strip ''ab cd'' = [] \<longrightarrow>
      cosine_similarity_check_with (Inr (1 / 2)) ''  '' ''ab cd'' = Inr 0" .
  with 2 have 4: "cosine_similarity_check_with (Inr (1 / 2)) ''  '' ''ab cd'' = Inr 0"
    by simp
  from 1 2 3 4 show ?thesis by simp
qed

text \<open>
  Claim C7, as stated, fails where the terms of the specification (runs of alphanumeric
  characters) and the tokens of the vectorizer differ: the text \<open>a_b\<close> has no term of
  length 2 in the words of the specification, and compared with itself it scores 1.
\<close>
theorem underscore_text_counterexample:
  "spec_terms ''a_b'' = [] \<and> cosine_similarity_check ''a_b'' ''a_b'' = Inr 1 \<and> (1::real) \<noteq> 0"
  using score_identical [of "''a_b''"] by (simp add: tok_eval spec_terms_def)

text \<open>
  Claim C7, amended. When one of the two texts is empty, consists of whitespace, or has
  no token of the vectorizer (no run of two or more characters that are alphanumeric or
  the underscore), \<open>cosine_similarity_check\<close> returns 0 and does not raise.
\<close>
theorem empty_text_scores_zero:
  assumes "a = [] \<or> (\<forall>c\<in>set a. py_isspace c) \<or> build_analyzer a = [] \<or>
           b = [] \<or> (\<forall>c\<in>set b. py_isspace c) \<or> build_analyzer b = []"
  shows "cosine_similarity_check a b = Inr 0"
proof -
  from assms have "build_analyzer a = [] \<or> build_analyzer b = []"
    using build_analyzer_whitespace by (auto simp: build_analyzer_nil)
  then have "set (build_analyzer a) \<inter> set (build_analyzer b) = {}" by auto
  then show ?thesis by (rule score_disjoint)
qed

theorem empty_text_scores_zero_witness:
  "build_analyzer ''x'' = [] \<and> cosine_similarity_check ''x'' ''machine learning'' = Inr 0 \<and>
   cosine_similarity_check ''machine learning'' '''' = Inr 0"
proof -
  have 1: "build_analyzer ''x'' = []" by (simp add: tok_eval)
  show ?thesis
    using 1 empty_text_scores_zero [where a = "''x''" and b = "''machine learning''"]
      empty_text_scores_zero [where a = "''machine learning''" and b = "''''"]
    by simp
qed

text \<open>
  Claim C8, as stated, fails for the same reason: \<open>x_1\<close> and \<open>x_1\<close> share no
  term in the words of the specification, and score 1.
\<close>
theorem underscore_shared_counterexample:
  "set (spec_terms ''x_1'') \<inter> set (spec_terms ''x_1'') = {} \<and>
   cosine_similarity_check ''x_1'' ''x_1'' = Inr 1 \<and> (1::real) \<noteq> 0"
  using score_identical [of "''x_1''"] by (simp add: tok_eval spec_terms_def)

text \<open>
  Claim C8, amended. When the two texts have no token of the vectorizer in common,
  \<open>cosine_similarity_check\<close> returns 0.
\<close>
theorem disjoint_texts_score_zero:
  assumes "set (build_analyzer a) \<inter> set (build_analyzer b) = {}"
  shows "cosine_similarity_check a b = Inr 0"
  using assms by (rule score_disjoint)

theorem disjoint_texts_score_zero_witness:
  "set (build_analyzer ''ab cd'') \<inter> set (build_analyzer ''ef gh'') = {} \<and>
   cosine_similarity_check ''ab cd'' ''ef gh'' = Inr 0"
proof -
  have 1: "set (build_analyzer ''ab cd'') \<inter> set (build_analyzer ''ef gh'') = {}"
    by (simp add: tok_eval)
  show ?thesis
    using 1 disjoint_texts_score_zero [where a = "''ab cd''" and b = "''ef gh''"] by simp
qed




section \<open>Terms\<close>

text \<open>
  Claim C3, as stated, fails at the underscore: \<open>\w\<close> matches it, so \<open>a_b\<close> is one
  term, where the maximal runs of alphanumeric characters are \<open>a\<close> and \<open>b\<close>, both
  dropped.
\<close>
theorem underscore_term_counterexample:
  "build_analyzer ''a_b'' = [''a_b''] \<and> spec_terms ''a_b'' = []"
  by (simp add: tok_eval spec_terms_def)

text \<open>
  Claim C3, amended. The terms of a text are the maximal runs, of length at least 2, of
  characters that are alphanumeric or the underscore, in the lowercased text; a text of
  whitespace only, or the empty text, has no term.
\<close>
theorem terms_are_word_runs:
  "set (build_analyzer doc) =
     {w. 2 \<le> length w \<and> (\<forall>c\<in>set w. py_isalnum c \<or> c = CHR ''_'') \<and>
         (\<exists>pre post. py_lower doc = pre @ w @ post \<and>
            (pre = [] \<or> \<not> (py_isalnum (last pre) \<or> last pre = CHR ''_'')) \<and>
            (post = [] \<or> \<not> (py_isalnum (hd post) \<or> hd post = CHR ''_'')))} \<and>
   ((\<forall>c\<in>set doc. py_isspace c) \<longrightarrow> build_analyzer doc = [])"
proof -
  have "set (build_analyzer doc) =
     {w. 2 \<le> length w \<and> (\<forall>c\<in>set w. re_word c) \<and>
         (\<exists>pre post. [] @ py_lower doc = pre @ w @ post \<and>
            (pre = [] \<or> \<not> re_word (last pre)) \<and> (post = [] \<or> \<not> re_word (hd post)))}"
    unfolding build_analyzer_def findall_token_pattern_def
    by (rule scan_tokens_set) simp
  then show ?thesis
    using build_analyzer_whitespace [of doc]
    unfolding re_word_def append_Nil by blast
qed

theorem terms_are_word_runs_witness:
  "''yy_1'' \<in> set (build_analyzer ''x YY_1 z'') \<and> build_analyzer ''  '' = [] \<and>
   build_analyzer '''' = []"
proof -
  have sp: "\<forall>c\<in>set ''  ''. py_isspace c" "\<forall>c\<in>set ''''. py_isspace c"
    by (simp_all add: py_isspace_def)
  have "py_lower ''x YY_1 z'' = ''x '' @ ''yy_1'' @ '' z''"
    by (simp add: py_lower_def py_lower_char_def) code_simp
  moreover have "\<forall>c\<in>set ''yy_1''. py_isalnum c \<or> c = CHR ''_''"
    by (simp add: py_isalnum_def)
  moreover have "\<not> (py_isalnum (last ''x '') \<or> last ''x '' = CHR ''_'')"
    "\<not> (py_isalnum (hd '' z'') \<or> hd '' z'' = CHR ''_'')"
    by (simp_all add: py_isalnum_def)
  moreover have "2 \<le> length ''yy_1''" by simp
  ultimately have "''yy_1'' \<in> {w. 2 \<le> length w \<and> (\<forall>c\<in>set w. py_isalnum c \<or> c = CHR ''_'') \<and>
         (\<exists>pre post. py_lower ''x YY_1 z'' = pre @ w @ post \<and>
            (pre = [] \<or> \<not> (py_isalnum (last pre) \<or> last pre = CHR ''_'')) \<and>
            (post = [] \<or> \<not> (py_isalnum (hd post) \<or> hd post = CHR ''_'')))}"
    by blast
  then have "''yy_1'' \<in> set (build_analyzer ''x YY_1 z'')"
    using terms_are_word_runs [where doc = "''x YY_1 z''"] by (simp only:)
  moreover have "build_analyzer ''  '' = []"
    using sp(1) terms_are_word_runs [where doc = "''  ''"] by (simp only:)
  moreover have "build_analyzer '''' = []"
    using sp(2) terms_are_word_runs [where doc = "''''"] by (simp only:)
  ultimately show ?thesis by (simp only:)
qed

section \<open>Weights\<close>

lemma raw_weights_no_terms:
  "build_analyzer d = [] \<Longrightarrow> \<forall>x\<in>set (raw_weights d docs). x = 0"
  by (simp add: raw_weights_def tf_def)

lemma normalize_l2_zero: "\<forall>x\<in>set v. x = 0 \<Longrightarrow> normalize_l2 v = v"
  by (simp add: normalize_l2_def l2_norm_zero_iff)

lemma normalize_l2_unit: "\<exists>x\<in>set (normalize_l2 v). x \<noteq> 0 \<Longrightarrow> l2_norm (normalize_l2 v) = 1"
proof -
  assume nz: "\<exists>x\<in>set (normalize_l2 v). x \<noteq> 0"
  have "l2_norm v \<noteq> 0"
  proof
    assume z: "l2_norm v = 0"
    then have "normalize_l2 v = v" by (simp add: normalize_l2_def)
    with nz z show False by (simp add: l2_norm_zero_iff)
  qed
  then show ?thesis by (rule l2_norm_normalize)
qed

lemma idf_pos: "0 < idf t [a, b]"
proof -
  have "df t [a, b] \<le> 2" by (simp add: df_def)
  then have "1 \<le> (1 + real (length [a, b])) / (1 + real (df t [a, b]))" by simp
  then have "0 \<le> ln ((1 + real (length [a, b])) / (1 + real (df t [a, b])))" by simp
  then have "0 < ln ((1 + real (length [a, b])) / (1 + real (df t [a, b]))) + 1" by linarith
  then show ?thesis by (simp only: idf_def)
qed

lemma vocabulary_nil_iff:
  "vocabulary [a, b] = [] \<longleftrightarrow> build_analyzer a = [] \<and> build_analyzer b = []"
proof -
  have "vocabulary [a, b] = [] \<longleftrightarrow> set (vocabulary [a, b]) = {}" by simp
  then show ?thesis by (simp add: set_vocabulary)
qed

lemma raw_weights_nonzero:
  assumes "d \<in> set [a, b]" and "build_analyzer d \<noteq> []"
  shows "\<exists>x\<in>set (raw_weights d [a, b]). x \<noteq> 0"
proof -
  from assms(2) obtain t where t: "t \<in> set (build_analyzer d)"
    by (cases "build_analyzer d") auto
  with assms(1) have tv: "t \<in> set (vocabulary [a, b])" by (auto simp: set_vocabulary)
  have "0 < real (tf t d)" using t by (simp add: tf_def count_nonzero_iff)
  with idf_pos [of t a b] have "real (tf t d) * idf t [a, b] \<noteq> 0" by simp
  with tv show ?thesis by (auto simp: raw_weights_def)
qed

lemma normalize_l2_nonzero_iff:
  "(\<exists>x\<in>set (normalize_l2 v). x \<noteq> 0) \<longleftrightarrow> (\<exists>x\<in>set v. x \<noteq> 0)"
proof (cases "l2_norm v = 0")
  case True
  then show ?thesis by (simp add: normalize_l2_def)
next
  case False
  then have "l2_norm (normalize_l2 v) = 1" by (rule l2_norm_normalize)
  then have "l2_norm (normalize_l2 v) \<noteq> 0" by simp
  with False show ?thesis by (simp only: l2_norm_zero_iff) blast
qed

lemma entry_le_dot: "y \<in> set m \<Longrightarrow> y * y \<le> dot m m"
proof (induction m)
  case Nil
  then show ?case by simp
next
  case (Cons x m)
  have d: "dot (x # m) (x # m) = x * x + dot m m" by (simp add: dot_def)
  have x: "0 \<le> x * x" by simp
  show ?case
  proof (cases "y = x")
    case True
    with dot_self_nonneg [of m] show ?thesis by (simp add: d)
  next
    case False
    with Cons have "y * y \<le> dot m m" by simp
    with x show ?thesis unfolding d by linarith
  qed
qed

lemma unit_entries_bounded:
  assumes "l2_norm m = 1" and "y \<in> set m"
  shows "\<bar>y\<bar> \<le> 1"
proof -
  have "dot m m = 1" using assms(1) l2_norm_sq [of m] by simp
  with entry_le_dot [OF assms(2)] have "y * y \<le> 1" by simp
  then have "y\<^sup>2 \<le> 1\<^sup>2" by (simp add: power2_eq_square)
  then have "\<bar>y\<bar> \<le> \<bar>1::real\<bar>" by (simp only: abs_le_square_iff)
  then show ?thesis by simp
qed

lemma square_diff_bound:
  fixes x y d :: real
  assumes "\<bar>x - y\<bar> \<le> d" and "\<bar>y\<bar> \<le> 1"
  shows "\<bar>x * x - y * y\<bar> \<le> d * (2 + d)"
proof -
  have d0: "0 \<le> d" using assms(1) by linarith
  have "x * x - y * y = (x - y) * (x + y)" by (simp add: algebra_simps)
  then have "\<bar>x * x - y * y\<bar> = \<bar>x - y\<bar> * \<bar>x + y\<bar>" by (simp add: abs_mult)
  moreover have "\<bar>x + y\<bar> \<le> 2 + d" using assms by linarith
  ultimately show ?thesis
    using assms(1) d0 by (simp add: mult_mono)
qed

lemma dot_self_perturbed:
  assumes "list_all2 (\<lambda>x y. \<bar>x - y\<bar> \<le> d) v m" and "\<forall>y\<in>set m. \<bar>y\<bar> \<le> 1"
  shows "\<bar>dot v v - dot m m\<bar> \<le> real (length v) * (d * (2 + d))"
  using assms
proof (induction v m rule: list_all2_induct)
  case Nil
  then show ?case by (simp add: dot_def)
next
  case (Cons x v y m)
  have 1: "\<bar>x * x - y * y\<bar> \<le> d * (2 + d)"
    using Cons.hyps(1) Cons.prems by (intro square_diff_bound) simp_all
  have 2: "\<bar>dot v v - dot m m\<bar> \<le> real (length v) * (d * (2 + d))"
    using Cons.IH Cons.prems by simp
  have "dot (x # v) (x # v) - dot (y # m) (y # m) = (x * x - y * y) + (dot v v - dot m m)"
    by (simp add: dot_def)
  then have "\<bar>dot (x # v) (x # v) - dot (y # m) (y # m)\<bar> \<le>
      \<bar>x * x - y * y\<bar> + \<bar>dot v v - dot m m\<bar>" by linarith
  with 1 2 show ?case by (simp add: algebra_simps)
qed

lemma sqrt_near_one:
  fixes a :: real
  assumes "0 \<le> a"
  shows "\<bar>sqrt a - 1\<bar> \<le> \<bar>a - 1\<bar>"
proof -
  have "a - 1 = (sqrt a - 1) * (sqrt a + 1)"
    using assms by (simp add: algebra_simps)
  then have e: "\<bar>a - 1\<bar> = \<bar>sqrt a - 1\<bar> * \<bar>sqrt a + 1\<bar>" by (simp add: abs_mult)
  have "1 \<le> \<bar>sqrt a + 1\<bar>" using assms by simp
  then have "\<bar>sqrt a - 1\<bar> * 1 \<le> \<bar>sqrt a - 1\<bar> * \<bar>sqrt a + 1\<bar>"
    by (intro mult_left_mono) simp_all
  with e show ?thesis by simp
qed

lemma l2_norm_perturbed:
  assumes "list_all2 (\<lambda>x y. \<bar>x - y\<bar> \<le> d) v m" and "l2_norm m = 1"
  shows "\<bar>l2_norm v - 1\<bar> \<le> real (length v) * d * (2 + d)"
proof -
  have b: "\<forall>y\<in>set m. \<bar>y\<bar> \<le> 1" using assms(2) unit_entries_bounded by blast
  have m: "dot m m = 1" using assms(2) l2_norm_sq [of m] by simp
  have "\<bar>l2_norm v - 1\<bar> \<le> \<bar>dot v v - 1\<bar>"
    unfolding l2_norm_def by (rule sqrt_near_one) (rule dot_self_nonneg)
  also have "\<dots> \<le> real (length v) * (d * (2 + d))"
    using dot_self_perturbed [OF assms(1) b] by (simp add: m)
  finally show ?thesis by (simp add: mult.assoc)
qed

text \<open>
  Claim C6, as stated, fails in two places. For a group of two documents without a
  token the vectorizer raises \<open>ValueError\<close>, so no vector exists where the claim has
  the zero vector. And the row the library stores is rounded: for \<open>ab cd\<close> in the group
  of \<open>ab cd\<close> and \<open>ab cd\<close> its two entries are the float64 value
  0.7071067811865475, which is \<open>1592262918131443 / 2 ^ 51\<close>, and the norm of that row
  is not 1.
\<close>
theorem tokenless_group_counterexample:
  "build_analyzer ''a'' = [] \<and> build_analyzer ''b'' = [] \<and>
   fit_transform [''a'', ''b''] =
     Inl (ValueError ''empty vocabulary; perhaps the documents only contain stop words'') \<and>
   \<not> l2_norm [1592262918131443 / 2 ^ 51, 1592262918131443 / 2 ^ 51] = 1"
  by (simp add: fit_transform_def count_vocab_def tok_eval l2_norm_def dot_def)

text \<open>
  Claim C6, amended. For a group of two documents, \<open>fit_transform\<close> raises
  \<open>ValueError\<close> when neither has a token and returns otherwise. When it returns, row
  \<open>i\<close> of the exact result is the vector of the weights
  \<open>tf(t, doc) * (ln((1 + 2) / (1 + df(t))) + 1)\<close> over the group vocabulary, divided by
  its Euclidean norm when that is not zero. It has a non-zero entry exactly when the
  document has a token; then its norm is 1, otherwise it is the zero vector. A row \<open>v\<close>
  whose entries are within \<open>d\<close> of those of a row of norm 1, as the rounded row of the
  library is, has a norm within \<open>length v * d * (2 + d)\<close> of 1.
\<close>
theorem tfidf_vector_weights:
  "(build_analyzer a = [] \<and> build_analyzer b = [] \<longrightarrow>
      fit_transform [a, b] =
        Inl (ValueError ''empty vocabulary; perhaps the documents only contain stop words'')) \<and>
   (build_analyzer a \<noteq> [] \<or> build_analyzer b \<noteq> [] \<longrightarrow> (\<exists>M. fit_transform [a, b] = Inr M)) \<and>
   (fit_transform [a, b] = Inr M \<and> i < 2 \<longrightarrow>
      length M = 2 \<and>
      M ! i =
        (let w = map (\<lambda>t. real (tf t ([a, b] ! i)) *
                        (ln ((1 + 2) / (1 + real (df t [a, b]))) + 1))
                   (vocabulary [a, b])
         in if l2_norm w = 0 then w else map (\<lambda>x. x / l2_norm w) w) \<and>
      ((\<exists>x\<in>set (M ! i). x \<noteq> 0) \<longrightarrow> l2_norm (M ! i) = 1) \<and>
      ((\<exists>x\<in>set (M ! i). x \<noteq> 0) \<longleftrightarrow> build_analyzer ([a, b] ! i) \<noteq> []) \<and>
      (build_analyzer ([a, b] ! i) = [] \<longrightarrow> (\<forall>x\<in>set (M ! i). x = 0)) \<and>
      (list_all2 (\<lambda>x y. \<bar>x - y\<bar> \<le> d) v (M ! i) \<and> (\<exists>x\<in>set (M ! i). x \<noteq> 0) \<longrightarrow>
         \<bar>l2_norm v - 1\<bar> \<le> real (length v) * d * (2 + d)))"
proof (intro conjI impI)
  assume "build_analyzer a = [] \<and> build_analyzer b = []"
  then have "vocabulary [a, b] = []" by (simp only: vocabulary_nil_iff)
  then show "fit_transform [a, b] =
        Inl (ValueError ''empty vocabulary; perhaps the documents only contain stop words'')"
    by (simp add: fit_transform_eq)
next
  assume "build_analyzer a \<noteq> [] \<or> build_analyzer b \<noteq> []"
  then have "vocabulary [a, b] \<noteq> []" by (simp only: vocabulary_nil_iff) blast
  then show "\<exists>M. fit_transform [a, b] = Inr M" by (simp add: fit_transform_eq)
next
  assume "fit_transform [a, b] = Inr M \<and> i < 2"
  then have M: "M = [normalize_l2 (raw_weights a [a, b]), normalize_l2 (raw_weights b [a, b])]"
    and i: "i = 0 \<or> i = 1"
    by (auto simp: fit_transform_eq split: if_splits)
  let ?d = "[a, b] ! i"
  have din: "?d \<in> set [a, b]" using i by auto
  have Mi: "M ! i = normalize_l2 (raw_weights ?d [a, b])" using i by (auto simp: M)
  show "length M = 2" by (simp add: M)
  show "M ! i =
        (let w = map (\<lambda>t. real (tf t ?d) *
                        (ln ((1 + 2) / (1 + real (df t [a, b]))) + 1))
                   (vocabulary [a, b])
         in if l2_norm w = 0 then w else map (\<lambda>x. x / l2_norm w) w)"
    unfolding Mi by (simp add: normalize_l2_def raw_weights_def idf_def Let_def)
  have 4: "build_analyzer ?d = [] \<longrightarrow> (\<forall>x\<in>set (M ! i). x = 0)"
    unfolding Mi using raw_weights_no_terms normalize_l2_zero by metis
  have "build_analyzer ?d \<noteq> [] \<longrightarrow> (\<exists>x\<in>set (M ! i). x \<noteq> 0)"
    unfolding Mi normalize_l2_nonzero_iff using raw_weights_nonzero [OF din] by blast
  with 4 show "(\<exists>x\<in>set (M ! i). x \<noteq> 0) \<longleftrightarrow> build_analyzer ?d \<noteq> []" by blast
  {
    assume "\<exists>x\<in>set (M ! i). x \<noteq> 0"
    then show "l2_norm (M ! i) = 1" unfolding Mi by (rule normalize_l2_unit)
  }
  {
    assume "build_analyzer ?d = []"
    with 4 show "\<forall>x\<in>set (M ! i). x = 0" by simp
  }
  {
    assume "list_all2 (\<lambda>x y. \<bar>x - y\<bar> \<le> d) v (M ! i) \<and> (\<exists>x\<in>set (M ! i). x \<noteq> 0)"
    then have c: "list_all2 (\<lambda>x y. \<bar>x - y\<bar> \<le> d) v (M ! i)" and "\<exists>x\<in>set (M ! i). x \<noteq> 0"
      by simp_all
    then have "l2_norm (M ! i) = 1" unfolding Mi by (intro normalize_l2_unit)
    with c show "\<bar>l2_norm v - 1\<bar> \<le> real (length v) * d * (2 + d)"
      by (rule l2_norm_perturbed)
  }
qed

lemma vocabulary_abcd: "vocabulary [''ab cd'', ''ab cd''] = [''ab'', ''cd'']"
  by code_simp

lemma vocabulary_abcd_c: "vocabulary [''ab cd'', ''c''] = [''ab'', ''cd'']"
  by code_simp

lemma sqrt_half: "sqrt (1 / 2) = 1 / sqrt 2"
  by (simp add: real_sqrt_divide)

lemma float_row_close:
  "\<bar>1592262918131443 / 2 ^ 51 - 1 / sqrt 2\<bar> \<le> 1 / 10 ^ 16"
proof -
  have lo: "1592262918131443 / 2 ^ 51 - 1 / 10 ^ 16 \<le> sqrt (1 / 2)"
    by (rule real_le_rsqrt) (simp add: power2_eq_square)
  have hi: "sqrt (1 / 2) \<le> 1592262918131443 / 2 ^ 51 + 1 / 10 ^ 16"
    by (rule real_le_lsqrt) (simp_all add: power2_eq_square)
  from lo hi show ?thesis unfolding sqrt_half by linarith
qed

lemma fit_abcd:
  "fit_transform [''ab cd'', ''ab cd''] =
     Inr [[1 / sqrt 2, 1 / sqrt 2], [1 / sqrt 2, 1 / sqrt 2]]"
  by (simp add: fit_transform_eq vocabulary_abcd raw_weights_def tf_def idf_def df_def
      normalize_l2_def l2_norm_def dot_def tok_eval)

theorem tfidf_vector_weights_witness:
  "build_analyzer ''ab cd'' \<noteq> [] \<and>
   fit_transform [''ab cd'', ''ab cd''] =
     Inr [[1 / sqrt 2, 1 / sqrt 2], [1 / sqrt 2, 1 / sqrt 2]] \<and>
   l2_norm [1 / sqrt 2, 1 / sqrt 2] = 1 \<and>
   list_all2 (\<lambda>x y. \<bar>x - y\<bar> \<le> 1 / 10 ^ 16)
     [1592262918131443 / 2 ^ 51, 1592262918131443 / 2 ^ 51] [1 / sqrt 2, 1 / sqrt 2] \<and>
   \<bar>l2_norm [1592262918131443 / 2 ^ 51, 1592262918131443 / 2 ^ 51] - 1\<bar>
     \<le> 2 * (1 / 10 ^ 16) * (2 + 1 / 10 ^ 16) \<and>
   build_analyzer ''c'' = [] \<and>
   (\<exists>M. fit_transform [''ab cd'', ''c''] = Inr M \<and> length M = 2 \<and> M ! 1 = [0, 0])"
proof -
  let ?x = "1592262918131443 / 2 ^ 51 :: real"
  let ?M = "[[1 / sqrt 2, 1 / sqrt 2], [1 / sqrt 2, 1 / sqrt 2 :: real]]"
  have t: "build_analyzer ''ab cd'' \<noteq> []" by (simp add: tok_eval)
  have c: "build_analyzer ''c'' = []" by (simp add: tok_eval)
  have close: "list_all2 (\<lambda>x y. \<bar>x - y\<bar> \<le> 1 / 10 ^ 16) [?x, ?x] [1 / sqrt 2, 1 / sqrt 2]"
    using float_row_close by simp
  have pre: "fit_transform [''ab cd'', ''ab cd''] = Inr ?M \<and> (0::nat) < 2"
    using fit_abcd by simp
  note C = tfidf_vector_weights [where a = "''ab cd''" and b = "''ab cd''" and M = ?M and i = 0
      and v = "[?x, ?x]" and d = "1 / 10 ^ 16", THEN conjunct2, THEN conjunct2, THEN mp, OF pre]
  have nz: "\<exists>x\<in>set (?M ! 0). x \<noteq> 0" by simp
  from C [THEN conjunct2, THEN conjunct2, THEN conjunct1, THEN mp, OF nz]
  have n1: "l2_norm [1 / sqrt 2, 1 / sqrt 2] = 1" by simp
  have close': "list_all2 (\<lambda>x y. \<bar>x - y\<bar> \<le> 1 / 10 ^ 16) [?x, ?x] (?M ! 0)"
    using close by simp
  from C [THEN conjunct2, THEN conjunct2, THEN conjunct2, THEN conjunct2, THEN conjunct2,
      THEN mp, OF conjI [OF close' nz]]
  have fl: "\<bar>l2_norm [?x, ?x] - 1\<bar> \<le> 2 * (1 / 10 ^ 16) * (2 + 1 / 10 ^ 16)" by simp
  have some: "build_analyzer ''ab cd'' \<noteq> [] \<or> build_analyzer ''c'' \<noteq> []" using t by simp
  from tfidf_vector_weights [where a = "''ab cd''" and b = "''c''", THEN conjunct2,
      THEN conjunct1, THEN mp, OF some]
  obtain N where N: "fit_transform [''ab cd'', ''c''] = Inr N" ..
  then have pre2: "fit_transform [''ab cd'', ''c''] = Inr N \<and> (1::nat) < 2" by simp
  note D = tfidf_vector_weights [where a = "''ab cd''" and b = "''c''" and M = N and i = 1,
      THEN conjunct2, THEN conjunct2, THEN mp, OF pre2]
  from D [THEN conjunct1] have lenN: "length N = 2" .
  from D [THEN conjunct2, THEN conjunct1] have "length (N ! 1) = 2"
    by (simp add: vocabulary_abcd_c Let_def)
  moreover from D [THEN conjunct2, THEN conjunct2, THEN conjunct2, THEN conjunct2, THEN conjunct1] c
  have "\<forall>x\<in>set (N ! 1). x = 0" by simp
  ultimately have "N ! 1 = [0, 0]"
    by (cases "N ! 1"; cases "tl (N ! 1)") auto
  with N lenN
  have ex: "\<exists>M. fit_transform [''ab cd'', ''c''] = Inr M \<and> length M = 2 \<and> M ! 1 = [0, 0]"
    by blast
  show ?thesis using t fit_abcd n1 close fl c ex by (intro conjI) assumption+
qed

end
